theory Spec2Isabelle
  imports Main "HOL-Library.Sublist"
begin

section \<open>Python values, exceptions and the program state\<close>

text \<open>
  The two clients of this repository (\<open>testrail_api_example.py\<close>, a REST/JSON client, and
  \<open>testlink_api_example.py\<close>, an XML-RPC client) build dictionaries and hand them to a
  transport. Values that the code only passes through are modelled dynamically, as Python
  has them: a dictionary is an association list in insertion order with string keys.
\<close>

datatype pyval =
    PNone
  | PBool bool
  | PInt int
  | PStr string
  | PList "pyval list"
  | PDict "(string \<times> pyval) list"

type_synonym pydict = "(string \<times> pyval) list"

text \<open>
  The exceptions that can travel through the clients: \<open>xmlrpc.client.Fault\<close> with its
  \<open>faultCode\<close> and \<open>faultString\<close>, the builtin \<open>Exception\<close> with its message,
  \<open>KeyError\<close> with the missing key, and any other exception a transport raises
  (an HTTP error, a connection error), kept opaque.
\<close>

datatype exn =
    Fault int string
  | PyException string
  | KeyError string
  | TransportExn string

text \<open>
  The state a method runs in: the object \<open>self\<close>, the world behind the transport, and
  the trace of the transport calls made so far (each with its outcome), oldest first.
  The trace is what the theorems about the number and the order of calls read.
\<close>

record ('c, 't, 'w) pstate =
  this :: 'c
  world :: 'w
  calls :: "'t list"

subsection \<open>Builtins: \<open>str\<close> of an integer, \<open>dict[key]\<close>, \<open>dict.get\<close>, \<open>rstrip\<close>, \<open>lower\<close>\<close>

definition digit_char :: "nat \<Rightarrow> char" where
  "digit_char d = char_of (48 + d)"

function str_nat :: "nat \<Rightarrow> string" where
  "str_nat n = (if n < 10 then [digit_char n] else str_nat (n div 10) @ [digit_char (n mod 10)])"
  by pat_completeness auto
termination
  by (relation "measure (\<lambda>n. n)") auto

declare str_nat.simps [simp del]

definition str_int :: "int \<Rightarrow> string" where
  "str_int i = (if i < 0 then CHR ''-'' # str_nat (nat (- i)) else str_nat (nat i))"

definition getitem :: "pydict \<Rightarrow> string \<Rightarrow> exn + pyval" where
  "getitem d k = (case map_of d k of None \<Rightarrow> Inl (KeyError k) | Some v \<Rightarrow> Inr v)"

definition dict_get :: "pydict \<Rightarrow> string \<Rightarrow> pyval \<Rightarrow> pyval" where
  "dict_get d k dflt = (case map_of d k of None \<Rightarrow> dflt | Some v \<Rightarrow> v)"

definition rstrip :: "char \<Rightarrow> string \<Rightarrow> string" where
  "rstrip c s = rev (dropWhile (\<lambda>x. x = c) (rev s))"

text \<open>
  \<open>str.lower\<close> on ASCII text: the letters \<open>A\<close> to \<open>Z\<close> (codes 65 to 90) move to
  \<open>a\<close> to \<open>z\<close>, every other character stays.
\<close>

definition lower_char :: "char \<Rightarrow> char" where
  "lower_char c = (let n = (of_char c :: nat) in if 65 \<le> n \<and> n \<le> 90 then char_of (n + 32) else c)"

definition lower :: "string \<Rightarrow> string" where
  "lower s = map lower_char s"

section \<open>The REST client: \<open>TestRailClient\<close>\<close>

record TestRailClient =
  base_url :: string
  auth :: "string \<times> string"
  headers :: "(string \<times> string) list"

definition TestRailClient_init :: "string \<Rightarrow> string \<Rightarrow> string \<Rightarrow> TestRailClient" where
  "TestRailClient_init base email api_key =
     \<lparr> base_url = rstrip CHR ''/'' base,
       auth = (email, api_key),
       headers = [(''Content-Type'', ''application/json'')] \<rparr>"

text \<open>
  What \<open>requests.post\<close> and \<open>requests.get\<close> receive, and the response object they
  return. Of the response the client calls two methods: \<open>raise_for_status()\<close>, which
  raises on a non-success status (here: the error it raises, if any), and \<open>json()\<close>,
  which decodes the body (or raises).
\<close>

datatype http_verb = GET | POST

record http_request =
  verb :: http_verb
  url :: string
  req_auth :: "string \<times> string"
  req_headers :: "(string \<times> string) list"
  req_json :: "pyval option"

record http_response =
  raise_for_status :: "exn option"
  json :: "exn + pyval"

type_synonym http_call = "http_request \<times> (exn + http_response)"

type_synonym 'w http_transport = "http_request \<Rightarrow> 'w \<Rightarrow> (exn + http_response) \<times> 'w"

type_synonym 'w rest_state = "(TestRailClient, http_call, 'w) pstate"

text \<open>One call of \<open>requests.post\<close> or \<open>requests.get\<close>: the world moves, the trace grows by one.\<close>

definition requests_call ::
  "'w http_transport \<Rightarrow> http_request \<Rightarrow> ('c, http_call, 'w) pstate
     \<Rightarrow> (exn + http_response) \<times> ('c, http_call, 'w) pstate" where
  "requests_call T rq s =
     (case T rq (world s) of
        (out, w') \<Rightarrow> (out, s\<lparr>world := w', calls := calls s @ [(rq, out)]\<rparr>))"

text \<open>
  The tail shared by the four methods: \<open>response.raise_for_status()\<close> and then
  \<open>return response.json()\<close>; an exception of the request itself passes through.
\<close>

definition finish_response :: "(exn + http_response) \<times> 's \<Rightarrow> (exn + pyval) \<times> 's" where
  "finish_response p =
     (case p of
        (Inl e, s') \<Rightarrow> (Inl e, s')
      | (Inr response, s') \<Rightarrow>
          (case raise_for_status response of
             Some e \<Rightarrow> (Inl e, s')
           | None \<Rightarrow> (json response, s')))"

definition add_result_payload :: "pyval \<Rightarrow> pyval \<Rightarrow> pyval \<Rightarrow> pyval" where
  "add_result_payload status_id comment elapsed =
     PDict [(''status_id'', status_id), (''comment'', comment), (''elapsed'', elapsed)]"

definition add_result ::
  "'w http_transport \<Rightarrow> int \<Rightarrow> pyval \<Rightarrow> pyval \<Rightarrow> pyval \<Rightarrow> 'w rest_state
     \<Rightarrow> (exn + pyval) \<times> 'w rest_state" where
  "add_result T test_id status_id comment elapsed s =
     (let endpoint = base_url (this s) @ ''/index.php?/api/v2/add_result/'' @ str_int test_id;
          payload = add_result_payload status_id comment elapsed
      in finish_response
           (requests_call T
              \<lparr> verb = POST, url = endpoint, req_auth = auth (this s),
                req_headers = headers (this s), req_json = Some payload \<rparr> s))"

definition add_results_batch ::
  "'w http_transport \<Rightarrow> int \<Rightarrow> pyval list \<Rightarrow> 'w rest_state
     \<Rightarrow> (exn + pyval) \<times> 'w rest_state" where
  "add_results_batch T run_id results s =
     (let endpoint = base_url (this s) @ ''/index.php?/api/v2/add_results/'' @ str_int run_id;
          payload = PDict [(''results'', PList results)]
      in finish_response
           (requests_call T
              \<lparr> verb = POST, url = endpoint, req_auth = auth (this s),
                req_headers = headers (this s), req_json = Some payload \<rparr> s))"

definition get_test ::
  "'w http_transport \<Rightarrow> int \<Rightarrow> 'w rest_state \<Rightarrow> (exn + pyval) \<times> 'w rest_state" where
  "get_test T test_id s =
     (let endpoint = base_url (this s) @ ''/index.php?/api/v2/get_test/'' @ str_int test_id
      in finish_response
           (requests_call T
              \<lparr> verb = GET, url = endpoint, req_auth = auth (this s),
                req_headers = headers (this s), req_json = None \<rparr> s))"

definition get_run ::
  "'w http_transport \<Rightarrow> int \<Rightarrow> 'w rest_state \<Rightarrow> (exn + pyval) \<times> 'w rest_state" where
  "get_run T run_id s =
     (let endpoint = base_url (this s) @ ''/index.php?/api/v2/get_run/'' @ str_int run_id
      in finish_response
           (requests_call T
              \<lparr> verb = GET, url = endpoint, req_auth = auth (this s),
                req_headers = headers (this s), req_json = None \<rparr> s))"

section \<open>The XML-RPC client: \<open>TestLinkAPIClient\<close>\<close>

text \<open>
  \<open>xmlrpc.client.ServerProxy(url)\<close> is kept as the URL it was built from. A remote call
  names the proxy, the remote method and the one structured argument.
\<close>

datatype ServerProxy = ServerProxy string

record TestLinkAPIClient =
  server :: ServerProxy
  dev_key :: string

definition TestLinkAPIClient_init :: "string \<Rightarrow> string \<Rightarrow> TestLinkAPIClient" where
  "TestLinkAPIClient_init u k = \<lparr> server = ServerProxy u, dev_key = k \<rparr>"

record rpc_request =
  proxy :: ServerProxy
  rpc_method :: string
  rpc_arg :: pyval

type_synonym rpc_call = "rpc_request \<times> (exn + pyval)"

type_synonym 'w rpc_transport = "rpc_request \<Rightarrow> 'w \<Rightarrow> (exn + pyval) \<times> 'w"

type_synonym 'w rpc_state = "(TestLinkAPIClient, rpc_call, 'w) pstate"

definition server_call ::
  "'w rpc_transport \<Rightarrow> rpc_request \<Rightarrow> ('c, rpc_call, 'w) pstate
     \<Rightarrow> (exn + pyval) \<times> ('c, rpc_call, 'w) pstate" where
  "server_call T rq s =
     (case T rq (world s) of
        (out, w') \<Rightarrow> (out, s\<lparr>world := w', calls := calls s @ [(rq, out)]\<rparr>))"

text \<open>
  The handler shared by the three methods:
  \<open>except xmlrpc.client.Fault as fault: raise Exception(f"XML-RPC Fault: {fault.faultCode} - {fault.faultString}")\<close>.
  Only a \<open>Fault\<close> is caught; any other exception passes through.
\<close>

fun except_fault :: "exn \<Rightarrow> exn" where
  "except_fault (Fault faultCode faultString) =
     PyException (''XML-RPC Fault: '' @ str_int faultCode @ '' - '' @ faultString)"
| "except_fault e = e"

definition try_call ::
  "'w rpc_transport \<Rightarrow> rpc_request \<Rightarrow> ('c, rpc_call, 'w) pstate
     \<Rightarrow> (exn + pyval) \<times> ('c, rpc_call, 'w) pstate" where
  "try_call T rq s =
     (case server_call T rq s of
        (Inr response, s') \<Rightarrow> (Inr response, s')
      | (Inl e, s') \<Rightarrow> (Inl (except_fault e), s'))"

definition report_result_data ::
  "string \<Rightarrow> pyval \<Rightarrow> pyval \<Rightarrow> pyval \<Rightarrow> pyval \<Rightarrow> pyval \<Rightarrow> pyval" where
  "report_result_data key testcase_id testplan_id build_id status notes =
     PDict [(''devKey'', PStr key),
            (''testcaseid'', testcase_id),
            (''testplanid'', testplan_id),
            (''status'', status),
            (''buildid'', build_id),
            (''notes'', notes),
            (''overwrite'', PBool True)]"

definition report_result ::
  "'w rpc_transport \<Rightarrow> pyval \<Rightarrow> pyval \<Rightarrow> pyval \<Rightarrow> pyval \<Rightarrow> pyval \<Rightarrow> 'w rpc_state
     \<Rightarrow> (exn + pyval) \<times> 'w rpc_state" where
  "report_result T testcase_id testplan_id build_id status notes s =
     (let data = report_result_data (dev_key (this s)) testcase_id testplan_id build_id status notes
      in try_call T
           \<lparr> proxy = server (this s), rpc_method = ''tl.reportTCResult'', rpc_arg = data \<rparr> s)"

text \<open>
  The loop of \<open>report_multiple_results\<close>, with the list \<open>responses\<close> as accumulator.
  The arguments of the inner call are evaluated left to right, so a record without
  \<open>testcase_id\<close> or without \<open>status\<close> raises \<open>KeyError\<close> before any call is made for it.
  An exception leaves the loop at once: nothing is returned.
\<close>

fun report_loop ::
  "'w rpc_transport \<Rightarrow> pyval \<Rightarrow> pyval \<Rightarrow> pydict list \<Rightarrow> pyval list \<Rightarrow> 'w rpc_state
     \<Rightarrow> (exn + pyval list) \<times> 'w rpc_state" where
  "report_loop T testplan_id build_id [] responses s = (Inr responses, s)"
| "report_loop T testplan_id build_id (result # rest) responses s =
     (case getitem result ''testcase_id'' of
        Inl e \<Rightarrow> (Inl e, s)
      | Inr testcase_id \<Rightarrow>
          (case getitem result ''status'' of
             Inl e \<Rightarrow> (Inl e, s)
           | Inr status \<Rightarrow>
               (case report_result T testcase_id testplan_id build_id status
                       (dict_get result ''notes'' (PStr [])) s of
                  (Inl e, s') \<Rightarrow> (Inl e, s')
                | (Inr response, s') \<Rightarrow>
                    report_loop T testplan_id build_id rest (responses @ [response]) s')))"

definition report_multiple_results ::
  "'w rpc_transport \<Rightarrow> pyval \<Rightarrow> pyval \<Rightarrow> pydict list \<Rightarrow> 'w rpc_state
     \<Rightarrow> (exn + pyval list) \<times> 'w rpc_state" where
  "report_multiple_results T testplan_id build_id results s =
     report_loop T testplan_id build_id results [] s"

definition get_test_case ::
  "'w rpc_transport \<Rightarrow> pyval \<Rightarrow> 'w rpc_state \<Rightarrow> (exn + pyval) \<times> 'w rpc_state" where
  "get_test_case T testcase_id s =
     (let data = PDict [(''devKey'', PStr (dev_key (this s))), (''testcaseid'', testcase_id)]
      in try_call T \<lparr> proxy = server (this s), rpc_method = ''tl.getTestCase'', rpc_arg = data \<rparr> s)"

definition get_test_plan ::
  "'w rpc_transport \<Rightarrow> pyval \<Rightarrow> 'w rpc_state \<Rightarrow> (exn + pyval) \<times> 'w rpc_state" where
  "get_test_plan T testplan_id s =
     (let data = PDict [(''devKey'', PStr (dev_key (this s))), (''testplanid'', testplan_id)]
      in try_call T \<lparr> proxy = server (this s), rpc_method = ''tl.getTestPlanByID'', rpc_arg = data \<rparr> s)"

section \<open>The wrapper: \<open>TestLinkAPIWrapper\<close>\<close>

record TestLinkAPIWrapper =
  client :: TestLinkAPIClient
  status_map :: "(string \<times> string) list"

definition TestLinkAPIWrapper_init :: "string \<Rightarrow> string \<Rightarrow> TestLinkAPIWrapper" where
  "TestLinkAPIWrapper_init u k =
     \<lparr> client = TestLinkAPIClient_init u k,
       status_map = [(''passed'', ''p''), (''failed'', ''f''), (''blocked'', ''b'')] \<rparr>"

text \<open>\<open>status_code = self.status_map.get(status.lower(), 'p')\<close>\<close>

definition status_code_of :: "TestLinkAPIWrapper \<Rightarrow> string \<Rightarrow> string" where
  "status_code_of self status =
     (case map_of (status_map self) (lower status) of None \<Rightarrow> ''p'' | Some c \<Rightarrow> c)"

text \<open>
  A method of the object \<open>self.client\<close> runs with that object as its \<open>self\<close>; what it
  leaves of the object is stored back in the wrapper's field.
\<close>

definition on_client ::
  "((TestLinkAPIClient, 't, 'w) pstate \<Rightarrow> 'r \<times> (TestLinkAPIClient, 't, 'w) pstate)
     \<Rightarrow> (TestLinkAPIWrapper, 't, 'w) pstate \<Rightarrow> 'r \<times> (TestLinkAPIWrapper, 't, 'w) pstate" where
  "on_client m s =
     (case m \<lparr> this = client (this s), world = world s, calls = calls s \<rparr> of
        (r, s') \<Rightarrow>
          (r, \<lparr> this = (this s)\<lparr>client := this s'\<rparr>, world = world s', calls = calls s' \<rparr>))"

definition report_result_friendly ::
  "'w rpc_transport \<Rightarrow> pyval \<Rightarrow> pyval \<Rightarrow> pyval \<Rightarrow> string \<Rightarrow> pyval
     \<Rightarrow> (TestLinkAPIWrapper, rpc_call, 'w) pstate
     \<Rightarrow> (exn + pyval) \<times> (TestLinkAPIWrapper, rpc_call, 'w) pstate" where
  "report_result_friendly T testcase_id testplan_id build_id status notes s =
     (let status_code = status_code_of (this s) status
      in on_client
           (report_result T testcase_id testplan_id build_id (PStr status_code) notes) s)"

section \<open>The statuses and their codes\<close>

text \<open>
  The five statuses are those listed in the docstring of \<open>add_result\<close>:
  \<open>status_id: 1=Passed, 2=Blocked, 3=Untested, 4=Retest, 5=Failed\<close>. The REST client has
  no function from a status to its code: the caller passes the integer. \<open>documented_status_id\<close> is
  the docstring's table. \<open>status_name\<close> is the name of a status as the keys of the
  wrapper's \<open>status_map\<close> write it, in lower case.
\<close>

datatype status = Passed | Failed | Blocked | Untested | Retest

fun documented_status_id :: "status \<Rightarrow> int" where
  "documented_status_id Passed = 1"
| "documented_status_id Blocked = 2"
| "documented_status_id Untested = 3"
| "documented_status_id Retest = 4"
| "documented_status_id Failed = 5"

fun status_name :: "status \<Rightarrow> string" where
  "status_name Passed = ''passed''"
| "status_name Failed = ''failed''"
| "status_name Blocked = ''blocked''"
| "status_name Untested = ''untested''"
| "status_name Retest = ''retest''"



text \<open>
  The attributes \<open>faultCode\<close> and \<open>faultString\<close> of an exception object: only
  \<open>xmlrpc.client.Fault\<close> has them, the builtin \<open>Exception\<close> has its message only.
\<close>

fun faultCode :: "exn \<Rightarrow> int option" where
  "faultCode (Fault c m) = Some c"
| "faultCode e = None"

fun faultString :: "exn \<Rightarrow> string option" where
  "faultString (Fault c m) = Some m"
| "faultString e = None"

section \<open>Example transports and clients\<close>

text \<open>
  Concrete environments for the runs the theorems are instantiated at: a server that
  accepts every call, one that answers every call with a fault, one whose second call
  faults (its world counts the calls), and an HTTP side that answers 200 or 404.
\<close>

definition rpc_accepts :: "unit rpc_transport" where
  "rpc_accepts rq w = (Inr (PBool True), w)"

definition rpc_faults :: "unit rpc_transport" where
  "rpc_faults rq w = (Inl (Fault 3000 ''bad''), w)"


definition http_ok :: "unit http_transport" where
  "http_ok rq w = (Inr \<lparr> raise_for_status = None, json = Inr (PDict [(''id'', PInt 7)]) \<rparr>, w)"

definition http_not_found :: "unit http_transport" where
  "http_not_found rq w =
     (Inr \<lparr> raise_for_status = Some (TransportExn ''404 Client Error''),
             json = Inr (PDict []) \<rparr>, w)"

definition rest_start :: "unit rest_state" where
  "rest_start =
     \<lparr> this = TestRailClient_init ''https://example.testrail.io/'' ''tester@example.com'' ''key'',
       world = (), calls = [] \<rparr>"

definition rpc_start :: "'w \<Rightarrow> 'w rpc_state" where
  "rpc_start w =
     \<lparr> this = TestLinkAPIClient_init ''http://example.com/xmlrpc.php'' ''K'', world = w, calls = [] \<rparr>"

definition wrapper_start :: "(TestLinkAPIWrapper, rpc_call, unit) pstate" where
  "wrapper_start =
     \<lparr> this = TestLinkAPIWrapper_init ''http://example.com/xmlrpc.php'' ''K'',
       world = (), calls = [] \<rparr>"


section \<open>Facts about the builtins\<close>

lemma str_int_examples:
  "str_int 1 = ''1''" "str_int 42 = ''42''" "str_int 3000 = ''3000''"
  by code_simp+

lemma rstrip_replicate: "rstrip c (s @ replicate n c) = rstrip c s"
proof -
  have "dropWhile (\<lambda>x. x = c) (replicate n c @ rev s) = dropWhile (\<lambda>x. x = c) (rev s)"
    by (induction n) simp_all
  then show ?thesis by (simp add: rstrip_def)
qed

lemma dropWhile_hd_not: "dropWhile P xs = y # ys \<Longrightarrow> \<not> P y"
  by (metis hd_dropWhile list.sel(1) list.distinct(1))

lemma rstrip_not_suffix: "\<not> suffix [c] (rstrip c s)"
proof
  assume "suffix [c] (rstrip c s)"
  then obtain zs where "rstrip c s = zs @ [c]" by (auto simp: suffix_def)
  then have "dropWhile (\<lambda>x. x = c) (rev s) = c # rev zs"
    by (simp add: rstrip_def rev_swap)
  then show False using dropWhile_hd_not by fastforce
qed

lemma rstrip_decomp: "rstrip c s @ replicate (length s - length (rstrip c s)) c = s"
proof -
  let ?P = "\<lambda>x. x = c"
  let ?t = "takeWhile ?P (rev s)"
  have t: "?t = replicate (length ?t) c"
    by (rule replicate_length_same [symmetric]) (auto dest: set_takeWhileD)
  have len: "length s - length (rstrip c s) = length ?t"
  proof -
    have "length (rev s) = length ?t + length (dropWhile ?P (rev s))"
      by (metis length_append takeWhile_dropWhile_id)
    then show ?thesis by (simp add: rstrip_def)
  qed
  have "rev s = ?t @ dropWhile ?P (rev s)" by simp
  then have "s = rev (dropWhile ?P (rev s)) @ rev ?t"
    by (metis rev_append rev_rev_ident)
  also have "rev ?t = replicate (length ?t) c"
    using t by (metis rev_replicate)
  finally show ?thesis using len by (simp add: rstrip_def)
qed

section \<open>The REST client\<close>

lemma requests_call_eq:
  "requests_call T rq s =
     (fst (T rq (world s)),
      s\<lparr>world := snd (T rq (world s)), calls := calls s @ [(rq, fst (T rq (world s)))]\<rparr>)"
  by (simp add: requests_call_def split: prod.split)

lemma snd_finish_response: "snd (finish_response (out, s')) = s'"
  by (simp add: finish_response_def split: sum.split option.split)

lemma fst_finish_response:
  "fst (finish_response (out, s')) =
     (case out of
        Inl e \<Rightarrow> Inl e
      | Inr r \<Rightarrow> (case raise_for_status r of Some e \<Rightarrow> Inl e | None \<Rightarrow> json r))"
  by (simp add: finish_response_def split: sum.split option.split)

lemma TestRailClient_init_slashes:
  "TestRailClient_init (base @ replicate n CHR ''/'') email api_key =
     TestRailClient_init base email api_key"
  by (simp add: TestRailClient_init_def rstrip_replicate)

text \<open>
  Claim C10. The constructor strips every trailing \<open>/\<close> of the base URL: what it stores
  does not end in \<open>/\<close>, and the given string is the stored one followed by slashes only.
  So a client built from a string and one built from that string with any number of
  slashes appended are the same client, and each of the four operations, run from the
  same world and trace, makes the same request to the same endpoint URL and ends the same.
\<close>

theorem TestRailClient_init_trailing_slashes:
  "\<not> suffix ''/'' (base_url (TestRailClient_init base email api_key)) \<and>
   base =
     base_url (TestRailClient_init base email api_key) @
     replicate (length base - length (base_url (TestRailClient_init base email api_key))) CHR ''/'' \<and>
   TestRailClient_init (base @ replicate n CHR ''/'') email api_key =
     TestRailClient_init base email api_key \<and>
   add_result T test_id sid comment elapsed
       \<lparr> this = TestRailClient_init (base @ replicate n CHR ''/'') email api_key, world = w, calls = cs \<rparr> =
     add_result T test_id sid comment elapsed
       \<lparr> this = TestRailClient_init base email api_key, world = w, calls = cs \<rparr> \<and>
   add_results_batch T run_id results
       \<lparr> this = TestRailClient_init (base @ replicate n CHR ''/'') email api_key, world = w, calls = cs \<rparr> =
     add_results_batch T run_id results
       \<lparr> this = TestRailClient_init base email api_key, world = w, calls = cs \<rparr> \<and>
   get_test T test_id
       \<lparr> this = TestRailClient_init (base @ replicate n CHR ''/'') email api_key, world = w, calls = cs \<rparr> =
     get_test T test_id
       \<lparr> this = TestRailClient_init base email api_key, world = w, calls = cs \<rparr> \<and>
   get_run T run_id
       \<lparr> this = TestRailClient_init (base @ replicate n CHR ''/'') email api_key, world = w, calls = cs \<rparr> =
     get_run T run_id
       \<lparr> this = TestRailClient_init base email api_key, world = w, calls = cs \<rparr>"
proof -
  have "\<not> suffix ''/'' (base_url (TestRailClient_init base email api_key))"
    by (simp add: TestRailClient_init_def rstrip_not_suffix)
  moreover have "base =
     base_url (TestRailClient_init base email api_key) @
     replicate (length base - length (base_url (TestRailClient_init base email api_key))) CHR ''/''"
    by (simp add: TestRailClient_init_def rstrip_decomp)
  ultimately show ?thesis
    by (simp only: TestRailClient_init_slashes simp_thms)
qed

text \<open>
  Claim C2. For every run identifier and every list of records, of any length,
  \<open>add_results_batch\<close> makes exactly one transport call, whatever the transport answers:
  the trace grows by one entry, a POST to the \<open>add_results/{run_id}\<close> endpoint whose
  body is the dictionary with the single key \<open>results\<close> holding the given records
  themselves, as many as were given and in the order given.
\<close>

theorem add_results_batch_one_call:
  "let rq = \<lparr> verb = POST,
              url = base_url (this s) @ ''/index.php?/api/v2/add_results/'' @ str_int run_id,
              req_auth = auth (this s), req_headers = headers (this s),
              req_json = Some (PDict [(''results'', PList results)]) \<rparr>;
       run = add_results_batch T run_id results s
   in calls (snd run) = calls s @ [(rq, fst (T rq (world s)))] \<and>
      length (calls (snd run)) = length (calls s) + 1"
  by (simp add: add_results_batch_def Let_def requests_call_eq snd_finish_response)

text \<open>
  Claim C5. For every test id, status id, comment and elapsed time, \<open>add_result\<close> makes
  one transport call: a POST to the \<open>add_result/{test_id}\<close> endpoint under the client's
  base URL, with the client's credentials and headers, whose JSON body is the dictionary
  of \<open>status_id\<close>, \<open>comment\<close> and \<open>elapsed\<close> as given. When the response reports a
  non-success status (\<open>raise_for_status\<close> raises), the operation fails with that error;
  otherwise it returns what \<open>response.json()\<close> decodes. An exception of the request
  itself passes through.
\<close>

theorem add_result_spec:
  "let rq = \<lparr> verb = POST,
              url = base_url (this s) @ ''/index.php?/api/v2/add_result/'' @ str_int test_id,
              req_auth = auth (this s), req_headers = headers (this s),
              req_json = Some (PDict [(''status_id'', sid), (''comment'', comment),
                                      (''elapsed'', elapsed)]) \<rparr>;
       out = fst (T rq (world s));
       run = add_result T test_id sid comment elapsed s
   in calls (snd run) = calls s @ [(rq, out)] \<and>
      (\<forall>r e. out = Inr r \<and> raise_for_status r = Some e \<longrightarrow> fst run = Inl e) \<and>
      (\<forall>r. out = Inr r \<and> raise_for_status r = None \<longrightarrow> fst run = json r) \<and>
      (\<forall>e. out = Inl e \<longrightarrow> fst run = Inl e)"
  by (simp add: add_result_def add_result_payload_def Let_def requests_call_eq
      snd_finish_response fst_finish_response)

theorem add_result_spec_witness:
  "add_result http_ok 1 (PInt 1) (PStr ''ok'') (PStr ''1m 30s'') rest_start =
     (Inr (PDict [(''id'', PInt 7)]),
      rest_start\<lparr>calls :=
        [(\<lparr> verb = POST,
            url = ''https://example.testrail.io/index.php?/api/v2/add_result/1'',
            req_auth = (''tester@example.com'', ''key''),
            req_headers = [(''Content-Type'', ''application/json'')],
            req_json = Some (PDict [(''status_id'', PInt 1), (''comment'', PStr ''ok''),
                                    (''elapsed'', PStr ''1m 30s'')]) \<rparr>,
          Inr \<lparr> raise_for_status = None, json = Inr (PDict [(''id'', PInt 7)]) \<rparr>)]\<rparr>) \<and>
   fst (add_result http_not_found 1 (PInt 1) (PStr ''ok'') (PStr ''1m 30s'') rest_start) =
     Inl (TransportExn ''404 Client Error'')"
  using add_result_spec [of rest_start 1 "PInt 1" "PStr ''ok''" "PStr ''1m 30s''" http_ok]
    add_result_spec [of rest_start 1 "PInt 1" "PStr ''ok''" "PStr ''1m 30s''" http_not_found]
  by (simp add: Let_def prod_eq_iff rest_start_def TestRailClient_init_def rstrip_def
      http_ok_def http_not_found_def str_int_examples add_result_def add_result_payload_def
      requests_call_eq snd_finish_response fst_finish_response)

section \<open>The XML-RPC client\<close>

lemma server_call_eq:
  "server_call T rq s =
     (fst (T rq (world s)),
      s\<lparr>world := snd (T rq (world s)), calls := calls s @ [(rq, fst (T rq (world s)))]\<rparr>)"
  by (simp add: server_call_def split: prod.split)

lemma try_call_eq:
  "try_call T rq s =
     ((case fst (T rq (world s)) of Inr response \<Rightarrow> Inr response | Inl e \<Rightarrow> Inl (except_fault e)),
      s\<lparr>world := snd (T rq (world s)), calls := calls s @ [(rq, fst (T rq (world s)))]\<rparr>)"
  by (simp add: try_call_def server_call_eq split: sum.split)

lemma report_result_eq:
  "report_result T tc tp b st nt s =
     try_call T \<lparr> proxy = server (this s), rpc_method = ''tl.reportTCResult'',
                  rpc_arg = report_result_data (dev_key (this s)) tc tp b st nt \<rparr> s"
  by (simp add: report_result_def)

text \<open>
  Claim C4. For every test case id, plan id, build id, status and notes, \<open>report_result\<close>
  builds exactly the structure of \<open>devKey\<close>, \<open>testcaseid\<close>, \<open>testplanid\<close>, \<open>status\<close>,
  \<open>buildid\<close>, \<open>notes\<close> and \<open>overwrite = True\<close>, in this order, calls the remote method
  \<open>tl.reportTCResult\<close> once with it, and returns the transport's response as it is when
  the transport returns one.
\<close>

theorem report_result_spec:
  "let rq = \<lparr> proxy = server (this s), rpc_method = ''tl.reportTCResult'',
              rpc_arg = PDict [(''devKey'', PStr (dev_key (this s))),
                               (''testcaseid'', testcase_id),
                               (''testplanid'', testplan_id),
                               (''status'', status),
                               (''buildid'', build_id),
                               (''notes'', notes),
                               (''overwrite'', PBool True)] \<rparr>;
       out = fst (T rq (world s));
       run = report_result T testcase_id testplan_id build_id status notes s
   in calls (snd run) = calls s @ [(rq, out)] \<and>
      (\<forall>response. out = Inr response \<longrightarrow> fst run = Inr response)"
  by (simp add: report_result_eq try_call_eq report_result_data_def Let_def)

theorem report_result_spec_witness:
  "report_result rpc_accepts (PInt 1) (PInt 10) (PInt 5) (PStr ''p'') (PStr ''ok'') (rpc_start ()) =
     (Inr (PBool True),
      (rpc_start ())\<lparr>calls :=
        [(\<lparr> proxy = ServerProxy ''http://example.com/xmlrpc.php'',
            rpc_method = ''tl.reportTCResult'',
            rpc_arg = PDict [(''devKey'', PStr ''K''), (''testcaseid'', PInt 1),
                             (''testplanid'', PInt 10), (''status'', PStr ''p''),
                             (''buildid'', PInt 5), (''notes'', PStr ''ok''),
                             (''overwrite'', PBool True)] \<rparr>,
          Inr (PBool True))]\<rparr>)"
  using report_result_spec [of "rpc_start ()" "PInt 1" "PInt 10" "PStr ''p''" "PInt 5" "PStr ''ok''" rpc_accepts]
  by (simp add: Let_def prod_eq_iff rpc_start_def TestLinkAPIClient_init_def rpc_accepts_def
      report_result_eq try_call_eq report_result_data_def)

lemma except_fault_not_Fault: "except_fault e \<noteq> Fault c m"
  by (cases e) simp_all

lemma fst_try_call_not_Fault: "fst (try_call T rq s) \<noteq> Inl (Fault c m)"
  by (simp add: try_call_eq except_fault_not_Fault split: sum.split)

lemma this_try_call: "this (snd (try_call T rq s)) = this s"
  by (simp add: try_call_eq)

lemma this_finish_requests: "this (snd (finish_response (requests_call T rq s))) = this s"
  by (simp add: requests_call_eq snd_finish_response)

text \<open>
  Claim C7, as the code has it. When the transport signals a fault with code \<open>c\<close> and
  message \<open>m\<close>, each of \<open>report_result\<close>, \<open>get_test_case\<close> and \<open>get_test_plan\<close> fails
  with the builtin \<open>Exception\<close> whose message is the text
  \<open>XML-RPC Fault: c - m\<close>; and whatever the transport does, none of the three ever
  lets an \<open>xmlrpc.client.Fault\<close> through to its caller.
\<close>

theorem fault_becomes_exception:
  "(fst (T \<lparr> proxy = server (this s), rpc_method = ''tl.reportTCResult'',
              rpc_arg = report_result_data (dev_key (this s)) testcase_id testplan_id build_id
                          status notes \<rparr> (world s)) = Inl (Fault c m) \<longrightarrow>
      fst (report_result T testcase_id testplan_id build_id status notes s) =
        Inl (PyException (''XML-RPC Fault: '' @ str_int c @ '' - '' @ m))) \<and>
   (fst (T \<lparr> proxy = server (this s), rpc_method = ''tl.getTestCase'',
              rpc_arg = PDict [(''devKey'', PStr (dev_key (this s))),
                               (''testcaseid'', testcase_id)] \<rparr> (world s)) = Inl (Fault c m) \<longrightarrow>
      fst (get_test_case T testcase_id s) =
        Inl (PyException (''XML-RPC Fault: '' @ str_int c @ '' - '' @ m))) \<and>
   (fst (T \<lparr> proxy = server (this s), rpc_method = ''tl.getTestPlanByID'',
              rpc_arg = PDict [(''devKey'', PStr (dev_key (this s))),
                               (''testplanid'', testplan_id)] \<rparr> (world s)) = Inl (Fault c m) \<longrightarrow>
      fst (get_test_plan T testplan_id s) =
        Inl (PyException (''XML-RPC Fault: '' @ str_int c @ '' - '' @ m))) \<and>
   fst (report_result T testcase_id testplan_id build_id status notes s) \<noteq> Inl (Fault c' m') \<and>
   fst (get_test_case T testcase_id s) \<noteq> Inl (Fault c' m') \<and>
   fst (get_test_plan T testplan_id s) \<noteq> Inl (Fault c' m')"
proof -
  have "fst (report_result T testcase_id testplan_id build_id status notes s) \<noteq> Inl (Fault c' m')"
    by (simp only: report_result_eq fst_try_call_not_Fault not_False_eq_True)
  moreover have "fst (get_test_case T testcase_id s) \<noteq> Inl (Fault c' m')"
    by (simp only: get_test_case_def Let_def fst_try_call_not_Fault not_False_eq_True)
  moreover have "fst (get_test_plan T testplan_id s) \<noteq> Inl (Fault c' m')"
    by (simp only: get_test_plan_def Let_def fst_try_call_not_Fault not_False_eq_True)
  ultimately show ?thesis
    by (simp add: report_result_eq get_test_case_def get_test_plan_def Let_def try_call_eq)
qed

theorem fault_becomes_exception_witness:
  "fst (report_result rpc_faults (PInt 1) (PInt 10) (PInt 5) (PStr ''p'') (PStr ''ok'') (rpc_start ())) =
     Inl (PyException ''XML-RPC Fault: 3000 - bad'') \<and>
   fst (get_test_case rpc_faults (PInt 1) (rpc_start ())) =
     Inl (PyException ''XML-RPC Fault: 3000 - bad'') \<and>
   fst (get_test_plan rpc_faults (PInt 10) (rpc_start ())) =
     Inl (PyException ''XML-RPC Fault: 3000 - bad'')"
  using fault_becomes_exception [of rpc_faults "rpc_start ()" "PInt 1" "PInt 10" "PInt 5"
      "PStr ''p''" "PStr ''ok''" 3000 "''bad''"]
  by (simp add: rpc_faults_def str_int_examples)

text \<open>
  The error raised on a fault is not a typed fault that carries the code and the message
  as fields: at the fault \<open>(3000, bad)\<close> it is the plain \<open>Exception\<close> with one string,
  which has neither \<open>faultCode\<close> nor \<open>faultString\<close>.
\<close>

theorem typed_fault_counterexample:
  "fst (report_result rpc_faults (PInt 1) (PInt 10) (PInt 5) (PStr ''p'') (PStr ''ok'') (rpc_start ())) =
     Inl (PyException ''XML-RPC Fault: 3000 - bad'') \<and>
   faultCode (PyException ''XML-RPC Fault: 3000 - bad'') = None \<and>
   faultString (PyException ''XML-RPC Fault: 3000 - bad'') = None"
  by (simp add: report_result_eq try_call_eq rpc_faults_def rpc_start_def str_int_examples)

subsection \<open>The loop of \<open>report_multiple_results\<close>\<close>

lemma report_loop_trace:
  "report_loop T tp b rs acc s = (res, s') \<Longrightarrow>
   \<exists>cs. calls s' = calls s @ cs \<and> this s' = this s \<and> length cs \<le> length rs \<and>
     (\<forall>i<length cs. \<exists>tc st.
         map_of (rs ! i) ''testcase_id'' = Some tc \<and> map_of (rs ! i) ''status'' = Some st \<and>
         fst (cs ! i) =
           \<lparr> proxy = server (this s), rpc_method = ''tl.reportTCResult'',
             rpc_arg = report_result_data (dev_key (this s)) tc tp b st
                         (dict_get (rs ! i) ''notes'' (PStr [])) \<rparr>) \<and>
     (\<forall>k<length cs. \<forall>e. snd (cs ! k) = Inl e \<longrightarrow> Suc k = length cs \<and> res = Inl (except_fault e)) \<and>
     (\<forall>resps. res = Inr resps \<longrightarrow>
         length cs = length rs \<and> (\<exists>vs. resps = acc @ vs \<and> map snd cs = map Inr vs))"
proof (induction rs arbitrary: acc s)
  case Nil
  then show ?case by auto
next
  case (Cons r rest)
  show ?case
  proof (cases "getitem r ''testcase_id''")
    case (Inl e)
    with Cons.prems show ?thesis by auto
  next
    case tc: (Inr tc)
    show ?thesis
    proof (cases "getitem r ''status''")
      case (Inl e)
      with Cons.prems tc show ?thesis by auto
    next
      case st: (Inr st)
      let ?rq = "\<lparr> proxy = server (this s), rpc_method = ''tl.reportTCResult'',
             rpc_arg = report_result_data (dev_key (this s)) tc tp b st
                         (dict_get r ''notes'' (PStr [])) \<rparr>"
      let ?out = "fst (T ?rq (world s))"
      let ?s1 = "s\<lparr>world := snd (T ?rq (world s)), calls := calls s @ [(?rq, ?out)]\<rparr>"
      have mtc: "map_of r ''testcase_id'' = Some tc" and mst: "map_of r ''status'' = Some st"
        using tc st by (auto simp: getitem_def split: option.splits)
      show ?thesis
      proof (cases ?out)
        case (Inl e)
        with Cons.prems tc st have "res = Inl (except_fault e)" and "s' = ?s1"
          by (auto simp: report_result_eq try_call_eq)
        then show ?thesis using Inl mtc mst
          by (intro exI [of _ "[(?rq, ?out)]"]) simp
      next
        case (Inr v)
        with Cons.prems tc st have run: "report_loop T tp b rest (acc @ [v]) ?s1 = (res, s')"
          by (auto simp: report_result_eq try_call_eq)
        from Cons.IH [OF run] obtain cs where
          c: "calls s' = calls ?s1 @ cs" and t: "this s' = this ?s1" and l: "length cs \<le> length rest"
          and q: "\<forall>i<length cs. \<exists>tc st.
             map_of (rest ! i) ''testcase_id'' = Some tc \<and> map_of (rest ! i) ''status'' = Some st \<and>
             fst (cs ! i) =
               \<lparr> proxy = server (this ?s1), rpc_method = ''tl.reportTCResult'',
                 rpc_arg = report_result_data (dev_key (this ?s1)) tc tp b st
                             (dict_get (rest ! i) ''notes'' (PStr [])) \<rparr>"
          and f: "\<forall>k<length cs. \<forall>e. snd (cs ! k) = Inl e \<longrightarrow> Suc k = length cs \<and> res = Inl (except_fault e)"
          and r: "\<forall>resps. res = Inr resps \<longrightarrow>
             length cs = length rest \<and> (\<exists>vs. resps = (acc @ [v]) @ vs \<and> map snd cs = map Inr vs)"
          by blast
        let ?cs = "(?rq, ?out) # cs"
        have "calls s' = calls s @ ?cs" using c by simp
        moreover have "this s' = this s" using t by simp
        moreover have "length ?cs \<le> length (r # rest)" using l by simp
        moreover have "\<forall>i<length ?cs. \<exists>tc st.
             map_of ((r # rest) ! i) ''testcase_id'' = Some tc \<and> map_of ((r # rest) ! i) ''status'' = Some st \<and>
             fst (?cs ! i) =
               \<lparr> proxy = server (this s), rpc_method = ''tl.reportTCResult'',
                 rpc_arg = report_result_data (dev_key (this s)) tc tp b st
                             (dict_get ((r # rest) ! i) ''notes'' (PStr [])) \<rparr>"
        proof (intro allI impI)
          fix i assume "i < length ?cs"
          then show "\<exists>tc st.
             map_of ((r # rest) ! i) ''testcase_id'' = Some tc \<and> map_of ((r # rest) ! i) ''status'' = Some st \<and>
             fst (?cs ! i) =
               \<lparr> proxy = server (this s), rpc_method = ''tl.reportTCResult'',
                 rpc_arg = report_result_data (dev_key (this s)) tc tp b st
                             (dict_get ((r # rest) ! i) ''notes'' (PStr [])) \<rparr>"
            using q mtc mst by (cases i) auto
        qed
        moreover have "\<forall>k<length ?cs. \<forall>e. snd (?cs ! k) = Inl e \<longrightarrow> Suc k = length ?cs \<and> res = Inl (except_fault e)"
        proof (intro allI impI)
          fix k e assume "k < length ?cs" and "snd (?cs ! k) = Inl e"
          then show "Suc k = length ?cs \<and> res = Inl (except_fault e)"
            using f Inr by (cases k) auto
        qed
        moreover have "\<forall>resps. res = Inr resps \<longrightarrow>
             length ?cs = length (r # rest) \<and> (\<exists>vs. resps = acc @ vs \<and> map snd ?cs = map Inr vs)"
        proof (intro allI impI)
          fix resps assume "res = Inr resps"
          with r obtain vs where "length cs = length rest" and "resps = (acc @ [v]) @ vs"
            and "map snd cs = map Inr vs" by blast
          then show "length ?cs = length (r # rest) \<and> (\<exists>vs. resps = acc @ vs \<and> map snd ?cs = map Inr vs)"
            using Inr by (intro conjI exI [of _ "v # vs"]) simp_all
        qed
        ultimately show ?thesis by blast
      qed
    qed
  qed
qed



lemma this_report_loop: "this (snd (report_loop T tp b rs acc s)) = this s"
proof -
  obtain res s' where "report_loop T tp b rs acc s = (res, s')"
    by (cases "report_loop T tp b rs acc s")
  then show ?thesis using report_loop_trace by fastforce
qed








section \<open>The client objects are never changed\<close>

text \<open>
  Claim C8. No operation of either client assigns to a field of \<open>self\<close>: after each of
  the eight operations, whatever the transport did and whether the operation returned
  or raised, the client object (base URL, credentials and headers; server proxy and
  developer key) is the one it was before.
\<close>

theorem operations_keep_client:
  "this (snd (add_result H test_id sid comment elapsed r)) = this r \<and>
   this (snd (add_results_batch H run_id results r)) = this r \<and>
   this (snd (get_test H test_id r)) = this r \<and>
   this (snd (get_run H run_id r)) = this r \<and>
   this (snd (report_result T testcase_id testplan_id build_id status notes s)) = this s \<and>
   this (snd (report_multiple_results T testplan_id build_id records s)) = this s \<and>
   this (snd (get_test_case T testcase_id s)) = this s \<and>
   this (snd (get_test_plan T testplan_id s)) = this s"
  by (simp add: add_result_def add_results_batch_def get_test_def get_run_def Let_def
      this_finish_requests report_result_eq get_test_case_def get_test_plan_def this_try_call
      report_multiple_results_def this_report_loop)

section \<open>The wrapper and the status codes\<close>



lemma lower_names:
  "lower ''passed'' = ''passed''" "lower ''failed'' = ''failed''" "lower ''blocked'' = ''blocked''"
  "lower ''bogus'' = ''bogus''" "lower ''untested'' = ''untested''" "lower ''retest'' = ''retest''"
  by (simp_all add: lower_def lower_char_def)


lemma on_client_report_result:
  "on_client (report_result T tc tp b st nt) s =
     (let rq = \<lparr> proxy = server (client (this s)), rpc_method = ''tl.reportTCResult'',
                  rpc_arg = report_result_data (dev_key (client (this s))) tc tp b st nt \<rparr>;
          out = fst (T rq (world s))
      in ((case out of Inr response \<Rightarrow> Inr response | Inl e \<Rightarrow> Inl (except_fault e)),
          s\<lparr>world := snd (T rq (world s)), calls := calls s @ [(rq, out)]\<rparr>))"
  by (simp add: on_client_def report_result_eq try_call_eq Let_def)



text \<open>
  Claim C1, as the code has it. The wrapper's \<open>status_map\<close> gives \<open>p\<close>, \<open>f\<close>, \<open>b\<close> for
  Passed, Failed, Blocked and has no entry for Untested or Retest; the wrapper's lookup
  is total all the same, since it falls back to \<open>p\<close>, and returns nothing but \<open>p\<close>, \<open>f\<close>
  and \<open>b\<close>. The REST client maps nothing: the documented integers are 1, 5, 2, 3, 4
  for Passed, Failed, Blocked, Untested, Retest, and \<open>add_result\<close> sends the integer it
  is given as \<open>status_id\<close>.
\<close>

theorem status_codes:
  "map_of (status_map (TestLinkAPIWrapper_init u k)) (status_name Passed) = Some ''p'' \<and>
   map_of (status_map (TestLinkAPIWrapper_init u k)) (status_name Failed) = Some ''f'' \<and>
   map_of (status_map (TestLinkAPIWrapper_init u k)) (status_name Blocked) = Some ''b'' \<and>
   map_of (status_map (TestLinkAPIWrapper_init u k)) (status_name Untested) = None \<and>
   map_of (status_map (TestLinkAPIWrapper_init u k)) (status_name Retest) = None \<and>
   status_code_of (TestLinkAPIWrapper_init u k) (status_name st) =
     (case st of Passed \<Rightarrow> ''p'' | Failed \<Rightarrow> ''f'' | Blocked \<Rightarrow> ''b''
      | Untested \<Rightarrow> ''p'' | Retest \<Rightarrow> ''p'') \<and>
   documented_status_id st =
     (case st of Passed \<Rightarrow> 1 | Failed \<Rightarrow> 5 | Blocked \<Rightarrow> 2 | Untested \<Rightarrow> 3 | Retest \<Rightarrow> 4) \<and>
   map (req_json \<circ> fst)
       (calls (snd (add_result T test_id (PInt (documented_status_id st)) comment elapsed s))) =
     map (req_json \<circ> fst) (calls s) @
       [Some (PDict [(''status_id'', PInt (documented_status_id st)), (''comment'', comment),
                     (''elapsed'', elapsed)])]"
proof -
  have "status_code_of (TestLinkAPIWrapper_init u k) (status_name st) =
     (case st of Passed \<Rightarrow> ''p'' | Failed \<Rightarrow> ''f'' | Blocked \<Rightarrow> ''b''
      | Untested \<Rightarrow> ''p'' | Retest \<Rightarrow> ''p'')"
    by (cases st) (simp_all add: status_code_of_def TestLinkAPIWrapper_init_def lower_names)
  moreover have "documented_status_id st =
     (case st of Passed \<Rightarrow> 1 | Failed \<Rightarrow> 5 | Blocked \<Rightarrow> 2 | Untested \<Rightarrow> 3 | Retest \<Rightarrow> 4)"
    by (cases st) simp_all
  moreover have "map (req_json \<circ> fst)
       (calls (snd (add_result T test_id (PInt (documented_status_id st)) comment elapsed s))) =
     map (req_json \<circ> fst) (calls s) @
       [Some (PDict [(''status_id'', PInt (documented_status_id st)), (''comment'', comment),
                     (''elapsed'', elapsed)])]"
    by (simp add: add_result_def add_result_payload_def Let_def requests_call_eq
        snd_finish_response)
  ultimately show ?thesis
    by (simp add: TestLinkAPIWrapper_init_def)
qed

text \<open>
  The status map is not total on the five statuses: Untested and Retest have no code
  for the RPC protocol.
\<close>

theorem status_map_not_total:
  "map_of (status_map (this wrapper_start)) (status_name Untested) = None \<and>
   map_of (status_map (this wrapper_start)) (status_name Retest) = None"
  by (simp add: wrapper_start_def TestLinkAPIWrapper_init_def)

text \<open>
  Claim C6, as the code has it. No status is rejected. \<open>report_result\<close> and \<open>add_result\<close>
  send the status they are given, whatever it is, and fail only as the transport or the
  response makes them fail; there is no encoding error. The wrapper maps a status
  name through its map after lowering it and sends every name it does not know to \<open>p\<close>:
  \<open>bogus\<close> gives \<open>p\<close>, \<open>failed\<close> gives \<open>f\<close>, and the code found is the status of the
  one call the wrapper makes.
\<close>

theorem status_passed_through_or_defaulted:
  "(let rq = \<lparr> proxy = server (this s), rpc_method = ''tl.reportTCResult'',
               rpc_arg = PDict [(''devKey'', PStr (dev_key (this s))),
                                (''testcaseid'', testcase_id),
                                (''testplanid'', testplan_id),
                                (''status'', status),
                                (''buildid'', build_id),
                                (''notes'', notes),
                                (''overwrite'', PBool True)] \<rparr>;
        out = fst (T rq (world s));
        run = report_result T testcase_id testplan_id build_id status notes s
    in calls (snd run) = calls s @ [(rq, out)] \<and>
       fst run = (case out of Inr response \<Rightarrow> Inr response | Inl e \<Rightarrow> Inl (except_fault e))) \<and>
   (let rq = \<lparr> verb = POST,
               url = base_url (this r) @ ''/index.php?/api/v2/add_result/'' @ str_int test_id,
               req_auth = auth (this r), req_headers = headers (this r),
               req_json = Some (PDict [(''status_id'', sid), (''comment'', comment),
                                       (''elapsed'', elapsed)]) \<rparr>;
        out = fst (H rq (world r));
        run = add_result H test_id sid comment elapsed r
    in calls (snd run) = calls r @ [(rq, out)] \<and>
       fst run =
         (case out of
            Inl e \<Rightarrow> Inl e
          | Inr response \<Rightarrow>
              (case raise_for_status response of Some e \<Rightarrow> Inl e | None \<Rightarrow> json response))) \<and>
   status_code_of (TestLinkAPIWrapper_init u k) name =
     (if lower name = ''passed'' then ''p''
      else if lower name = ''failed'' then ''f''
      else if lower name = ''blocked'' then ''b''
      else ''p'') \<and>
   status_code_of (TestLinkAPIWrapper_init u k) ''bogus'' = ''p'' \<and>
   status_code_of (TestLinkAPIWrapper_init u k) ''failed'' = ''f'' \<and>
   (let rq = \<lparr> proxy = server (client (this w)), rpc_method = ''tl.reportTCResult'',
               rpc_arg = PDict [(''devKey'', PStr (dev_key (client (this w)))),
                                (''testcaseid'', testcase_id),
                                (''testplanid'', testplan_id),
                                (''status'', PStr (status_code_of (this w) name)),
                                (''buildid'', build_id),
                                (''notes'', notes),
                                (''overwrite'', PBool True)] \<rparr>
    in calls (snd (report_result_friendly T' testcase_id testplan_id build_id name notes w)) =
         calls w @ [(rq, fst (T' rq (world w)))])"
proof -
  have "status_code_of (TestLinkAPIWrapper_init u k) name =
     (if lower name = ''passed'' then ''p''
      else if lower name = ''failed'' then ''f''
      else if lower name = ''blocked'' then ''b''
      else ''p'')"
    by (simp add: status_code_of_def TestLinkAPIWrapper_init_def)
  moreover have "status_code_of (TestLinkAPIWrapper_init u k) ''bogus'' = ''p''"
    and "status_code_of (TestLinkAPIWrapper_init u k) ''failed'' = ''f''"
    by (simp_all add: status_code_of_def TestLinkAPIWrapper_init_def lower_names)
  ultimately show ?thesis
    by (simp add: Let_def report_result_eq try_call_eq report_result_data_def
        add_result_def add_result_payload_def requests_call_eq snd_finish_response
        fst_finish_response report_result_friendly_def on_client_report_result)
qed

text \<open>
  A status that is no code of the RPC protocol does not fail fast: \<open>report_result\<close> with
  the status \<open>bogus\<close> makes the call with that status and returns the server's response.
\<close>

theorem unknown_status_not_rejected:
  "report_result rpc_accepts (PInt 1) (PInt 10) (PInt 5) (PStr ''bogus'') (PStr ''ok'') (rpc_start ()) =
     (Inr (PBool True),
      (rpc_start ())\<lparr>calls :=
        [(\<lparr> proxy = ServerProxy ''http://example.com/xmlrpc.php'',
            rpc_method = ''tl.reportTCResult'',
            rpc_arg = PDict [(''devKey'', PStr ''K''), (''testcaseid'', PInt 1),
                             (''testplanid'', PInt 10), (''status'', PStr ''bogus''),
                             (''buildid'', PInt 5), (''notes'', PStr ''ok''),
                             (''overwrite'', PBool True)] \<rparr>,
          Inr (PBool True))]\<rparr>)"
  by (simp add: rpc_start_def TestLinkAPIClient_init_def rpc_accepts_def
      report_result_eq try_call_eq report_result_data_def)

end
